theory Spec2Isabelle
  imports Main
begin

section \<open>Endpoint resolution of the registry service (registry/service\_v2.go)\<close>

text \<open>
  The development embeds \<^verbatim>\<open>(*defaultService).lookupV2Endpoints\<close>. The Go function
  returns the pair \<^verbatim>\<open>(endpoints []APIEndpoint, err error)\<close>; the model returns the same
  pair, a list (the nil slice is \<open>[]\<close>) and an optional error (\<open>None\<close> is Go's nil).
\<close>

subsection \<open>Data carried by the resolver\<close>

text \<open>
  Go's \<^verbatim>\<open>error\<close> interface. \<open>Failure\<close> is any plain error with its message;
  \<open>InvalidParameter\<close> is the wrapper that marks an error as an invalid-parameter error.
\<close>

datatype error = Failure string | InvalidParameter error

text \<open>
  Modelled from the spec: \<^verbatim>\<open>invalidParam\<close> (registry/errors.go is not part of the sources
  at hand). The spec names the result an invalid-parameter error that carries the parse
  failure.
\<close>

definition invalidParam :: "error \<Rightarrow> error" where
  "invalidParam err = InvalidParameter err"

fun isInvalidParameter :: "error \<Rightarrow> bool" where
  "isInvalidParameter (InvalidParameter _) = True"
| "isInvalidParameter (Failure _) = False"

text \<open>The fields of \<^verbatim>\<open>net/url.URL\<close>; the zero value has every string empty.\<close>

record url_URL =
  Scheme :: string
  Opaque :: string
  User :: "string option"
  Host :: string
  Path :: string
  RawPath :: string
  ForceQuery :: bool
  RawQuery :: string
  Fragment :: string

text \<open>
  \<^verbatim>\<open>crypto/tls.Config\<close>: the resolver reads \<^verbatim>\<open>InsecureSkipVerify\<close> only; two further
  settings stand for the rest of the configuration, which it passes on untouched.
\<close>

record tls_Config =
  InsecureSkipVerify :: bool
  MinVersion :: nat
  Certificates :: "string list"

datatype APIVersion = APIVersionUnknown | APIVersion1 | APIVersion2

record APIEndpoint =
  Mirror :: bool
  URL :: url_URL
  Version :: APIVersion
  AllowNondistributableArtifacts :: bool
  Official :: bool
  TrimHostname :: bool
  TLSConfig :: tls_Config

text \<open>
  Modelled from the spec: the registry configuration (its declaration is not part of the
  sources at hand) is the ordered list of mirror addresses together with the two
  classification collaborators. \<open>isSecureIndex cfg host\<close> and
  \<open>allowNondistributableArtifacts cfg host\<close> read as the Go calls
  \<^verbatim>\<open>isSecureIndex(s.config, host)\<close> and \<^verbatim>\<open>allowNondistributableArtifacts(s.config, host)\<close>.
\<close>

record serviceConfig =
  Mirrors :: "string list"
  isSecureIndex :: "string \<Rightarrow> bool"
  allowNondistributableArtifacts :: "string \<Rightarrow> bool"

record defaultService =
  config :: serviceConfig

text \<open>
  What the function takes from outside its file: the package constants
  \<^verbatim>\<open>DefaultNamespace\<close>, \<^verbatim>\<open>IndexHostname\<close> and \<^verbatim>\<open>DefaultV2Registry\<close>, the standard
  library's \<^verbatim>\<open>url.Parse\<close>, the TLS builder \<^verbatim>\<open>newTLSConfig\<close> and
  \<^verbatim>\<open>tlsconfig.ServerDefault()\<close>. They are parameters of the model.
\<close>

record package =
  DefaultNamespace :: string
  IndexHostname :: string
  DefaultV2Registry :: url_URL
  url_Parse :: "string \<Rightarrow> error + url_URL"
  newTLSConfig :: "string \<Rightarrow> bool \<Rightarrow> error + tls_Config"
  tlsconfig_ServerDefault :: tls_Config

subsection \<open>The resolver\<close>

text \<open>\<^verbatim>\<open>strings.HasPrefix(s, prefix)\<close>.\<close>

definition strings_HasPrefix :: "string \<Rightarrow> string \<Rightarrow> bool" where
  "strings_HasPrefix s pre = (length pre \<le> length s \<and> take (length pre) s = pre)"

text \<open>Lines 13 to 15: the address as it is handed to \<^verbatim>\<open>url.Parse\<close>.\<close>

definition normalizeMirror :: "string \<Rightarrow> string" where
  "normalizeMirror mirror =
     (if \<not> strings_HasPrefix mirror ''http://'' \<and> \<not> strings_HasPrefix mirror ''https://''
      then ''https://'' @ mirror
      else mirror)"

text \<open>The zero value of \<^verbatim>\<open>url.URL\<close> and of \<^verbatim>\<open>APIEndpoint\<close> given a URL and a TLS configuration:
  a composite literal leaves the fields it does not name at their zero values.\<close>

definition zeroURL :: url_URL where
  "zeroURL = \<lparr>Scheme = [], Opaque = [], User = None, Host = [], Path = [], RawPath = [],
     ForceQuery = False, RawQuery = [], Fragment = []\<rparr>"

definition mirrorEndpoint :: "url_URL \<Rightarrow> tls_Config \<Rightarrow> APIEndpoint" where
  "mirrorEndpoint mirrorURL mirrorTLSConfig =
     \<lparr>Mirror = True, URL = mirrorURL, Version = APIVersion2,
      AllowNondistributableArtifacts = False, Official = False, TrimHostname = True,
      TLSConfig = mirrorTLSConfig\<rparr>"

definition officialEndpoint :: "package \<Rightarrow> APIEndpoint" where
  "officialEndpoint p =
     \<lparr>Mirror = False, URL = DefaultV2Registry p, Version = APIVersion2,
      AllowNondistributableArtifacts = False, Official = True, TrimHostname = True,
      TLSConfig = tlsconfig_ServerDefault p\<rparr>"

definition hostEndpoint :: "string \<Rightarrow> string \<Rightarrow> bool \<Rightarrow> tls_Config \<Rightarrow> APIEndpoint" where
  "hostEndpoint scheme hostname ana tlsConfig =
     \<lparr>Mirror = False, URL = zeroURL\<lparr>Scheme := scheme, Host := hostname\<rparr>,
      Version = APIVersion2, AllowNondistributableArtifacts = ana, Official = False,
      TrimHostname = True, TLSConfig = tlsConfig\<rparr>"

text \<open>
  The loop of lines 12 to 31 over the mirrors still to visit, with the endpoints
  accumulated so far. \<open>Inl\<close> is the early \<^verbatim>\<open>return nil, ...\<close> with its error.
\<close>

fun mirrorLoop ::
  "package \<Rightarrow> defaultService \<Rightarrow> string list \<Rightarrow> APIEndpoint list \<Rightarrow> error + APIEndpoint list"
where
  "mirrorLoop p s [] endpoints = Inr endpoints"
| "mirrorLoop p s (mirror # rest) endpoints =
     (case url_Parse p (normalizeMirror mirror) of
        Inl err \<Rightarrow> Inl (invalidParam err)
      | Inr mirrorURL \<Rightarrow>
          (case newTLSConfig p (Host mirrorURL) (isSecureIndex (config s) (Host mirrorURL)) of
             Inl err \<Rightarrow> Inl err
           | Inr mirrorTLSConfig \<Rightarrow>
               mirrorLoop p s rest (endpoints @ [mirrorEndpoint mirrorURL mirrorTLSConfig])))"

definition lookupV2Endpoints ::
  "package \<Rightarrow> defaultService \<Rightarrow> string \<Rightarrow> APIEndpoint list \<times> error option"
where
  "lookupV2Endpoints p s hostname =
     (if hostname = DefaultNamespace p \<or> hostname = IndexHostname p then
        (case mirrorLoop p s (Mirrors (config s)) [] of
           Inl err \<Rightarrow> ([], Some err)
         | Inr endpoints \<Rightarrow> (endpoints @ [officialEndpoint p], None))
      else
        (case newTLSConfig p hostname (isSecureIndex (config s) hostname) of
           Inl err \<Rightarrow> ([], Some err)
         | Inr tlsConfig \<Rightarrow>
             (let ana = allowNondistributableArtifacts (config s) hostname;
                  endpoints = [hostEndpoint ''https'' hostname ana tlsConfig]
              in if InsecureSkipVerify tlsConfig
                 then (endpoints @ [hostEndpoint ''http'' hostname ana tlsConfig], None)
                 else (endpoints, None))))"

text \<open>
  What one pass of the loop body does with one mirror: the endpoint it appends, or the
  error it returns with. Used to state what the loop computes.
\<close>

definition mirrorStep :: "package \<Rightarrow> defaultService \<Rightarrow> string \<Rightarrow> error + APIEndpoint" where
  "mirrorStep p s mirror =
     (case url_Parse p (normalizeMirror mirror) of
        Inl err \<Rightarrow> Inl (invalidParam err)
      | Inr mirrorURL \<Rightarrow>
          (case newTLSConfig p (Host mirrorURL) (isSecureIndex (config s) (Host mirrorURL)) of
             Inl err \<Rightarrow> Inl err
           | Inr mirrorTLSConfig \<Rightarrow> Inr (mirrorEndpoint mirrorURL mirrorTLSConfig)))"

text \<open>The hostname selects the default-namespace branch (line 11).\<close>

definition isDefaultHost :: "package \<Rightarrow> string \<Rightarrow> bool" where
  "isDefaultHost p hostname = (hostname = DefaultNamespace p \<or> hostname = IndexHostname p)"

subsection \<open>The specification's notion of an explicit scheme\<close>

text \<open>
  The specification speaks of an address that carries an explicit scheme. This
  definition follows those words, not the code: in URL syntax a scheme is a letter
  followed by letters, digits, \<open>+\<close>, \<open>-\<close> or \<open>.\<close>, and an address carries one explicitly
  when such a name is followed by \<open>://\<close>. It is compared below with the test the
  resolver makes on line 13.
\<close>

definition schemeLetter :: "char \<Rightarrow> bool" where
  "schemeLetter c = (c \<in> set ''abcdefghijklmnopqrstuvwxyzABCDEFGHIJKLMNOPQRSTUVWXYZ'')"

definition schemeChar :: "char \<Rightarrow> bool" where
  "schemeChar c = (schemeLetter c \<or> c \<in> set ''0123456789+-.'')"

definition spec_carriesExplicitScheme :: "string \<Rightarrow> bool" where
  "spec_carriesExplicitScheme addr =
     (case takeWhile schemeChar addr of
        [] \<Rightarrow> False
      | c # _ \<Rightarrow> schemeLetter c \<and> strings_HasPrefix (dropWhile schemeChar addr) ''://'')"

subsection \<open>A concrete setting for the examples\<close>

text \<open>
  The package constants as the registry package declares them, a TLS builder that
  fails for two hosts whose certificate directories are broken (for one with an
  invalid-parameter error, for the other with a plain error), and a stand-in for
  \<^verbatim>\<open>url.Parse\<close> that splits the scheme from the host and rejects the malformed
  address of the spec's example. They are used for the concrete examples only; every
  general theorem below holds for all parsers and all TLS builders.
\<close>

definition exampleParse :: "string \<Rightarrow> error + url_URL" where
  "exampleParse rawURL =
     (if rawURL = ''http://['' then Inl (Failure ''missing ] in host'')
      else if strings_HasPrefix rawURL ''https://''
        then Inr (zeroURL\<lparr>Scheme := ''https'', Host := drop 8 rawURL\<rparr>)
      else if strings_HasPrefix rawURL ''http://''
        then Inr (zeroURL\<lparr>Scheme := ''http'', Host := drop 7 rawURL\<rparr>)
      else Inr (zeroURL\<lparr>Path := rawURL\<rparr>))"

definition exampleServerDefault :: tls_Config where
  "exampleServerDefault = \<lparr>InsecureSkipVerify = False, MinVersion = 771, Certificates = []\<rparr>"

definition exampleNewTLSConfig :: "string \<Rightarrow> bool \<Rightarrow> error + tls_Config" where
  "exampleNewTLSConfig host isSecure =
     (if isSecure \<and> host = ''nokey.local''
        then Inl (invalidParam (Failure ''missing key for client certificate''))
      else if isSecure \<and> host = ''badcerts.local''
        then Inl (Failure ''failed to find any PEM data in certificate input'')
      else Inr (exampleServerDefault\<lparr>InsecureSkipVerify := \<not> isSecure\<rparr>))"

definition examplePackage :: package where
  "examplePackage =
     \<lparr>DefaultNamespace = ''docker.io'', IndexHostname = ''index.docker.io'',
      DefaultV2Registry = zeroURL\<lparr>Scheme := ''https'', Host := ''registry-1.docker.io''\<rparr>,
      url_Parse = exampleParse, newTLSConfig = exampleNewTLSConfig,
      tlsconfig_ServerDefault = exampleServerDefault\<rparr>"

definition exampleService :: "string list \<Rightarrow> defaultService" where
  "exampleService mirrors =
     \<lparr>config = \<lparr>Mirrors = mirrors,
        isSecureIndex = (\<lambda>host. host \<noteq> ''registry.insecure.test''),
        allowNondistributableArtifacts = (\<lambda>host. host = ''registry.insecure.test'')\<rparr>\<rparr>"

subsection \<open>What the mirror loop computes\<close>

lemma mirrorLoop_step:
  "mirrorLoop p s (mirror # rest) endpoints =
     (case mirrorStep p s mirror of
        Inl err \<Rightarrow> Inl err
      | Inr ep \<Rightarrow> mirrorLoop p s rest (endpoints @ [ep]))"
  by (simp add: mirrorStep_def split: sum.splits)

lemma mirrorLoop_acc:
  "mirrorLoop p s ms acc =
     (case mirrorLoop p s ms [] of Inl err \<Rightarrow> Inl err | Inr eps \<Rightarrow> Inr (acc @ eps))"
proof (induction ms arbitrary: acc)
  case Nil
  show ?case by simp
next
  case (Cons m ms)
  show ?case
  proof (cases "mirrorStep p s m")
    case (Inl err)
    then show ?thesis by (simp only: mirrorLoop_step sum.case)
  next
    case (Inr ep)
    have "mirrorLoop p s (m # ms) acc = mirrorLoop p s ms (acc @ [ep])"
      using Inr by (simp only: mirrorLoop_step sum.case)
    also have "\<dots> = (case mirrorLoop p s ms [] of Inl err \<Rightarrow> Inl err
                      | Inr eps \<Rightarrow> Inr ((acc @ [ep]) @ eps))"
      by (rule Cons.IH)
    finally have lhs: "mirrorLoop p s (m # ms) acc =
        (case mirrorLoop p s ms [] of Inl err \<Rightarrow> Inl err | Inr eps \<Rightarrow> Inr (acc @ ep # eps))"
      by (cases "mirrorLoop p s ms []") simp_all
    have "mirrorLoop p s (m # ms) [] = mirrorLoop p s ms ([] @ [ep])"
      using Inr by (simp only: mirrorLoop_step sum.case)
    also have "\<dots> = (case mirrorLoop p s ms [] of Inl err \<Rightarrow> Inl err
                      | Inr eps \<Rightarrow> Inr (([] @ [ep]) @ eps))"
      by (rule Cons.IH)
    finally have rhs: "mirrorLoop p s (m # ms) [] =
        (case mirrorLoop p s ms [] of Inl err \<Rightarrow> Inl err | Inr eps \<Rightarrow> Inr (ep # eps))"
      by (cases "mirrorLoop p s ms []") simp_all
    show ?thesis
      unfolding lhs rhs by (cases "mirrorLoop p s ms []") simp_all
  qed
qed

lemma mirrorLoop_Cons:
  "mirrorLoop p s (m # ms) [] =
     (case mirrorStep p s m of
        Inl err \<Rightarrow> Inl err
      | Inr ep \<Rightarrow> (case mirrorLoop p s ms [] of Inl err \<Rightarrow> Inl err | Inr eps \<Rightarrow> Inr (ep # eps)))"
proof (cases "mirrorStep p s m")
  case (Inl err)
  then show ?thesis by (simp only: mirrorLoop_step sum.case)
next
  case (Inr ep)
  have "mirrorLoop p s (m # ms) [] = mirrorLoop p s ms [ep]"
    using Inr by (simp add: mirrorLoop_step del: mirrorLoop.simps)
  also have "\<dots> = (case mirrorLoop p s ms [] of Inl err \<Rightarrow> Inl err | Inr eps \<Rightarrow> Inr ([ep] @ eps))"
    by (rule mirrorLoop_acc)
  finally show ?thesis
    using Inr by (cases "mirrorLoop p s ms []") (simp_all del: mirrorLoop.simps)
qed

text \<open>Success of the loop: one endpoint per mirror, in the order of the mirrors.\<close>

lemma mirrorLoop_Inr_iff:
  "mirrorLoop p s ms [] = Inr eps \<longleftrightarrow> map (mirrorStep p s) ms = map Inr eps"
proof (induction ms arbitrary: eps)
  case Nil
  show ?case by auto
next
  case (Cons m ms)
  show ?case
  proof (cases "mirrorStep p s m")
    case (Inl err)
    then show ?thesis
      by (cases eps) (simp_all add: mirrorLoop_Cons del: mirrorLoop.simps)
  next
    case step: (Inr ep)
    show ?thesis
    proof (cases "mirrorLoop p s ms []")
      case (Inl err)
      with Cons.IH have "\<And>eps'. map (mirrorStep p s) ms \<noteq> map Inr eps'" by simp
      with step Inl show ?thesis
        by (cases eps) (simp_all add: mirrorLoop_Cons del: mirrorLoop.simps)
    next
      case (Inr eps')
      with Cons.IH [of eps'] have "map (mirrorStep p s) ms = map Inr eps'" by simp
      with step Inr show ?thesis
        by (cases eps) (auto simp add: mirrorLoop_Cons inj_map_eq_map simp del: mirrorLoop.simps)
    qed
  qed
qed

lemma mirrorLoop_length:
  "mirrorLoop p s ms [] = Inr eps \<Longrightarrow> length eps = length ms"
  by (simp add: mirrorLoop_Inr_iff) (metis length_map)

lemma mirrorLoop_nth:
  assumes "mirrorLoop p s ms [] = Inr eps" and "i < length ms"
  shows "mirrorStep p s (ms ! i) = Inr (eps ! i)"
proof -
  from assms(1) have eq: "map (mirrorStep p s) ms = map Inr eps"
    by (simp add: mirrorLoop_Inr_iff)
  then have len: "length eps = length ms" by (metis length_map)
  have "mirrorStep p s (ms ! i) = map (mirrorStep p s) ms ! i"
    using assms(2) by simp
  also have "\<dots> = map Inr eps ! i" by (simp only: eq)
  also have "\<dots> = Inr (eps ! i)" using assms(2) len by simp
  finally show ?thesis .
qed

text \<open>Failure of the loop: the error of the first mirror whose step fails.\<close>

lemma mirrorLoop_first_failure:
  assumes "i < length ms"
    and "\<forall>j<i. \<exists>ep. mirrorStep p s (ms ! j) = Inr ep"
    and "mirrorStep p s (ms ! i) = Inl err"
  shows "mirrorLoop p s ms [] = Inl err"
  using assms
proof (induction ms arbitrary: i)
  case Nil
  then show ?case by simp
next
  case (Cons m ms)
  show ?case
  proof (cases i)
    case 0
    with Cons.prems(3) show ?thesis
      by (simp add: mirrorLoop_Cons del: mirrorLoop.simps)
  next
    case (Suc k)
    from Cons.prems(2) Suc obtain ep where ep: "mirrorStep p s m = Inr ep"
      by fastforce
    have "k < length ms" using Cons.prems(1) Suc by simp
    moreover have "\<forall>j<k. \<exists>ep. mirrorStep p s (ms ! j) = Inr ep"
    proof (intro allI impI)
      fix j assume "j < k"
      then have "Suc j < i" using Suc by simp
      with Cons.prems(2) show "\<exists>ep. mirrorStep p s (ms ! j) = Inr ep" by fastforce
    qed
    moreover have "mirrorStep p s (ms ! k) = Inl err" using Cons.prems(3) Suc by simp
    ultimately have "mirrorLoop p s ms [] = Inl err" by (rule Cons.IH)
    with ep show ?thesis by (simp add: mirrorLoop_Cons del: mirrorLoop.simps)
  qed
qed

lemma mirrorStep_Inr:
  "mirrorStep p s m = Inr ep \<longleftrightarrow>
     (\<exists>u t. url_Parse p (normalizeMirror m) = Inr u \<and>
            newTLSConfig p (Host u) (isSecureIndex (config s) (Host u)) = Inr t \<and>
            ep = mirrorEndpoint u t)"
  by (auto simp add: mirrorStep_def split: sum.splits)

lemma lookup_default:
  "isDefaultHost p hostname \<Longrightarrow>
   lookupV2Endpoints p s hostname =
     (case mirrorLoop p s (Mirrors (config s)) [] of
        Inl err \<Rightarrow> ([], Some err)
      | Inr endpoints \<Rightarrow> (endpoints @ [officialEndpoint p], None))"
  by (simp add: lookupV2Endpoints_def isDefaultHost_def)

lemma lookup_custom:
  "\<not> isDefaultHost p hostname \<Longrightarrow>
   lookupV2Endpoints p s hostname =
     (case newTLSConfig p hostname (isSecureIndex (config s) hostname) of
        Inl err \<Rightarrow> ([], Some err)
      | Inr tlsConfig \<Rightarrow>
          (hostEndpoint ''https'' hostname (allowNondistributableArtifacts (config s) hostname) tlsConfig
             # (if InsecureSkipVerify tlsConfig
                then [hostEndpoint ''http'' hostname
                        (allowNondistributableArtifacts (config s) hostname) tlsConfig]
                else []),
           None))"
  by (simp add: lookupV2Endpoints_def isDefaultHost_def Let_def split: sum.splits)

lemma mirrorLoop_members:
  assumes "mirrorLoop p s ms [] = Inr eps" and "ep \<in> set eps"
  shows "\<exists>u t. ep = mirrorEndpoint u t"
proof -
  from assms(2) obtain i where i: "i < length eps" "eps ! i = ep"
    by (auto simp add: in_set_conv_nth)
  have "length eps = length ms" using assms(1) by (rule mirrorLoop_length)
  with i have "mirrorStep p s (ms ! i) = Inr ep"
    using mirrorLoop_nth [OF assms(1), of i] by simp
  then show ?thesis by (auto simp add: mirrorStep_Inr)
qed

lemma lookup_default_success:
  assumes "hostname = DefaultNamespace p \<or> hostname = IndexHostname p"
    and "lookupV2Endpoints p s hostname = (eps, None)"
  shows "\<exists>meps. mirrorLoop p s (Mirrors (config s)) [] = Inr meps \<and>
                eps = meps @ [officialEndpoint p]"
proof -
  from assms(1) have "isDefaultHost p hostname" by (simp add: isDefaultHost_def)
  with assms(2) show ?thesis
    by (cases "mirrorLoop p s (Mirrors (config s)) []") (simp_all add: lookup_default)
qed

lemma HasPrefix_https_append: "strings_HasPrefix (''https://'' @ m) ''https://''"
  by (simp add: strings_HasPrefix_def)

lemma normalizeMirror_https_append: "normalizeMirror (''https://'' @ m) = ''https://'' @ m"
  using HasPrefix_https_append [of m] by (simp only: normalizeMirror_def simp_thms if_False)

lemma normalizeMirror_prefixes:
  "(normalizeMirror a = ''https://'' @ a) =
     (\<not> strings_HasPrefix a ''http://'' \<and> \<not> strings_HasPrefix a ''https://'')"
  by (simp add: normalizeMirror_def)

lemma mirrorLoop_cong:
  assumes "map normalizeMirror ms = map normalizeMirror ms'"
    and "isSecureIndex (config s') = isSecureIndex (config s)"
  shows "mirrorLoop p s' ms' acc = mirrorLoop p s ms acc"
  using assms(1)
proof (induction ms arbitrary: ms' acc)
  case Nil
  then show ?case by simp
next
  case (Cons m ms)
  then obtain m' rest where ms': "ms' = m' # rest"
    and m: "normalizeMirror m = normalizeMirror m'"
    and rest: "map normalizeMirror ms = map normalizeMirror rest"
    by (cases ms') auto
  have IH: "\<And>acc. mirrorLoop p s' rest acc = mirrorLoop p s ms acc"
    using Cons.IH [OF rest] .
  show ?case
    unfolding ms' by (simp add: m [symmetric] assms(2) IH split: sum.splits)
qed

lemma default_mirror_nth:
  assumes "hostname = DefaultNamespace p \<or> hostname = IndexHostname p"
    and "lookupV2Endpoints p s hostname = (eps, None)"
    and "i < length (Mirrors (config s))"
  shows "\<exists>u t. url_Parse p (normalizeMirror (Mirrors (config s) ! i)) = Inr u \<and>
               newTLSConfig p (Host u) (isSecureIndex (config s) (Host u)) = Inr t \<and>
               eps ! i = mirrorEndpoint u t"
proof -
  from assms(1,2) obtain meps where
    loop: "mirrorLoop p s (Mirrors (config s)) [] = Inr meps" and
    eps: "eps = meps @ [officialEndpoint p]"
    using lookup_default_success by blast
  from loop have len: "length meps = length (Mirrors (config s))"
    by (rule mirrorLoop_length)
  from loop assms(3) have "mirrorStep p s (Mirrors (config s) ! i) = Inr (meps ! i)"
    by (rule mirrorLoop_nth)
  moreover have "eps ! i = meps ! i"
    using eps assms(3) len by (simp add: nth_append)
  ultimately show ?thesis by (auto simp add: mirrorStep_Inr)
qed

lemma HasPrefix_split:
  assumes "strings_HasPrefix a pre"
  shows "\<exists>r. a = pre @ r"
proof -
  from assms have "take (length pre) a = pre"
    unfolding strings_HasPrefix_def by blast
  then have "a = pre @ drop (length pre) a"
    using append_take_drop_id [of "length pre" a] by (simp only:)
  then show ?thesis ..
qed

lemma HasPrefix_http_carriesScheme:
  assumes "strings_HasPrefix a ''http://''"
  shows "spec_carriesExplicitScheme a"
proof -
  from HasPrefix_split [OF assms] obtain r where "a = ''http://'' @ r" ..
  then show ?thesis
    by (simp add: spec_carriesExplicitScheme_def schemeChar_def schemeLetter_def
        strings_HasPrefix_def)
qed

lemma HasPrefix_https_carriesScheme:
  assumes "strings_HasPrefix a ''https://''"
  shows "spec_carriesExplicitScheme a"
proof -
  from HasPrefix_split [OF assms] obtain r where "a = ''https://'' @ r" ..
  then show ?thesis
    by (simp add: spec_carriesExplicitScheme_def schemeChar_def schemeLetter_def
        strings_HasPrefix_def)
qed

lemma schemeless_is_prefixed:
  assumes "\<not> spec_carriesExplicitScheme a"
  shows "normalizeMirror a = ''https://'' @ a"
proof -
  from assms have "\<not> strings_HasPrefix a ''http://''" and "\<not> strings_HasPrefix a ''https://''"
    using HasPrefix_http_carriesScheme HasPrefix_https_carriesScheme by blast+
  then show ?thesis by (simp add: normalizeMirror_def)
qed

text \<open>The unfolding rules that evaluate the resolver in the concrete setting.\<close>

lemmas example_defs = examplePackage_def exampleService_def exampleParse_def
  exampleNewTLSConfig_def exampleServerDefault_def lookupV2Endpoints_def normalizeMirror_def
  strings_HasPrefix_def invalidParam_def

subsection \<open>Shape of every result\<close>

text \<open>
  C6. For every hostname and every configuration, the resolver returns either a
  non-empty endpoint list with no error, or an error with the empty (nil) list: never
  an error together with endpoints, never a success with no endpoint.
\<close>

theorem lookup_list_or_error:
  "(\<exists>eps. eps \<noteq> [] \<and> lookupV2Endpoints p s hostname = (eps, None)) \<or>
   (\<exists>err. lookupV2Endpoints p s hostname = ([], Some err))"
proof (cases "isDefaultHost p hostname")
  case True
  then show ?thesis
    by (cases "mirrorLoop p s (Mirrors (config s)) []") (simp_all add: lookup_default)
next
  case False
  then show ?thesis
    by (cases "newTLSConfig p hostname (isSecureIndex (config s) hostname)")
       (simp_all add: lookup_custom)
qed

theorem lookup_list_or_error_witness:
  "lookupV2Endpoints examplePackage (exampleService []) ''docker.io''
     = ([officialEndpoint examplePackage], None) \<and>
   lookupV2Endpoints examplePackage (exampleService [''http://['']) ''docker.io''
     = ([], Some (InvalidParameter (Failure ''missing ] in host'')))"
  using lookup_list_or_error [of examplePackage "exampleService []" "''docker.io''"]
  by (simp add: example_defs)

text \<open>
  C7. Every endpoint of a returned list has \<open>Mirror\<close> and \<open>Official\<close> not both true, and
  has \<open>TrimHostname\<close> true whenever \<open>Mirror\<close> or \<open>Official\<close> is true. (A list returned
  with an error is empty, so this speaks of the successful results.)
\<close>

theorem endpoint_flags:
  assumes "ep \<in> set (fst (lookupV2Endpoints p s hostname))"
  shows "\<not> (Mirror ep \<and> Official ep) \<and> (Mirror ep \<or> Official ep \<longrightarrow> TrimHostname ep)"
proof (cases "isDefaultHost p hostname")
  case True
  show ?thesis
  proof (cases "mirrorLoop p s (Mirrors (config s)) []")
    case (Inl err)
    with True assms show ?thesis by (simp add: lookup_default)
  next
    case (Inr eps)
    with True assms have "ep \<in> set eps \<or> ep = officialEndpoint p"
      by (auto simp add: lookup_default)
    then show ?thesis
    proof
      assume "ep \<in> set eps"
      with Inr obtain u t where "ep = mirrorEndpoint u t"
        using mirrorLoop_members by blast
      then show ?thesis by (simp add: mirrorEndpoint_def)
    next
      assume "ep = officialEndpoint p"
      then show ?thesis by (simp add: officialEndpoint_def)
    qed
  qed
next
  case False
  with assms show ?thesis
    by (cases "newTLSConfig p hostname (isSecureIndex (config s) hostname)")
       (auto simp add: lookup_custom hostEndpoint_def split: if_splits)
qed

theorem endpoint_flags_witness:
  "mirrorEndpoint (zeroURL\<lparr>Scheme := ''https'', Host := ''mirror.local''\<rparr>) exampleServerDefault
     \<in> set (fst (lookupV2Endpoints examplePackage (exampleService [''mirror.local''])
                   ''docker.io'')) \<and>
   TrimHostname (mirrorEndpoint (zeroURL\<lparr>Scheme := ''https'', Host := ''mirror.local''\<rparr>)
     exampleServerDefault)"
proof -
  have h: "mirrorEndpoint (zeroURL\<lparr>Scheme := ''https'', Host := ''mirror.local''\<rparr>)
             exampleServerDefault
     \<in> set (fst (lookupV2Endpoints examplePackage (exampleService [''mirror.local''])
                   ''docker.io''))"
    by (simp add: example_defs)
  from endpoint_flags [OF h] h show ?thesis by (simp add: mirrorEndpoint_def)
qed

subsection \<open>Custom hostnames\<close>



text \<open>
  C10, as stated, fails: it promises that a hostname that is neither reserved name
  never gets an invalid-parameter error. Lines 43 to 46 return the TLS builder's error
  as it is, so an invalid-parameter error of the builder (here for a host whose client
  certificate has no key) is the resolver's error.
\<close>

theorem custom_host_invalid_parameter_counterexample:
  "''nokey.local'' \<noteq> DefaultNamespace examplePackage \<and>
   ''nokey.local'' \<noteq> IndexHostname examplePackage \<and>
   lookupV2Endpoints examplePackage (exampleService []) ''nokey.local''
     = ([], Some (InvalidParameter (Failure ''missing key for client certificate''))) \<and>
   isInvalidParameter (InvalidParameter (Failure ''missing key for client certificate''))"
  by (simp add: example_defs)

text \<open>
  C10, amended. For a hostname that is neither reserved name, the resolver returns an
  error exactly when the TLS builder fails for that hostname, and the error is the
  builder's own, unchanged: the resolver adds no invalid-parameter error in this branch.
  When the builder succeeds the list is not empty. The hostname is the \<open>Host\<close> of every
  returned URL as it was given, all other URL fields but the scheme are empty, and the
  result does not depend on \<open>url.Parse\<close>: the hostname is never parsed or validated.
\<close>

theorem custom_host_errors:
  assumes "hostname \<noteq> DefaultNamespace p" and "hostname \<noteq> IndexHostname p"
  shows "(snd (lookupV2Endpoints p s hostname) = Some err) =
           (newTLSConfig p hostname (isSecureIndex (config s) hostname) = Inl err) \<and>
         (fst (lookupV2Endpoints p s hostname) \<noteq> []) =
           (\<exists>tlsConfig. newTLSConfig p hostname (isSecureIndex (config s) hostname)
                          = Inr tlsConfig) \<and>
         (\<forall>ep \<in> set (fst (lookupV2Endpoints p s hostname)).
            URL ep = zeroURL\<lparr>Scheme := Scheme (URL ep), Host := hostname\<rparr>) \<and>
         lookupV2Endpoints (p\<lparr>url_Parse := parse\<rparr>) s hostname = lookupV2Endpoints p s hostname"
proof -
  from assms have custom: "\<not> isDefaultHost p hostname"
    by (simp add: isDefaultHost_def)
  from assms have custom': "\<not> isDefaultHost (p\<lparr>url_Parse := parse\<rparr>) hostname"
    by (simp add: isDefaultHost_def)
  show ?thesis
  proof (cases "newTLSConfig p hostname (isSecureIndex (config s) hostname)")
    case (Inl e)
    then show ?thesis
      using custom custom' by (auto simp add: lookup_custom)
  next
    case (Inr tlsConfig)
    then show ?thesis
      using custom custom' by (auto simp add: lookup_custom hostEndpoint_def)
  qed
qed

theorem custom_host_errors_witness:
  "''registry.insecure.test'' \<noteq> DefaultNamespace examplePackage \<and>
   ''registry.insecure.test'' \<noteq> IndexHostname examplePackage \<and>
   lookupV2Endpoints examplePackage (exampleService []) ''registry.insecure.test''
     = ([hostEndpoint ''https'' ''registry.insecure.test'' True
           (exampleServerDefault\<lparr>InsecureSkipVerify := True\<rparr>),
         hostEndpoint ''http'' ''registry.insecure.test'' True
           (exampleServerDefault\<lparr>InsecureSkipVerify := True\<rparr>)], None) \<and>
   URL (hostEndpoint ''http'' ''registry.insecure.test'' True
           (exampleServerDefault\<lparr>InsecureSkipVerify := True\<rparr>))
     = zeroURL\<lparr>Scheme := ''http'', Host := ''registry.insecure.test''\<rparr> \<and>
   lookupV2Endpoints (examplePackage\<lparr>url_Parse := (\<lambda>raw. Inl (Failure raw))\<rparr>)
       (exampleService []) ''registry.insecure.test''
     = lookupV2Endpoints examplePackage (exampleService []) ''registry.insecure.test''"
proof -
  let ?tls = "exampleServerDefault\<lparr>InsecureSkipVerify := True\<rparr>"
  let ?http = "hostEndpoint ''http'' ''registry.insecure.test'' True ?tls"
  have h1: "''registry.insecure.test'' \<noteq> DefaultNamespace examplePackage"
    by (simp add: examplePackage_def)
  have h2: "''registry.insecure.test'' \<noteq> IndexHostname examplePackage"
    by (simp add: examplePackage_def)
  have h3: "lookupV2Endpoints examplePackage (exampleService []) ''registry.insecure.test''
     = ([hostEndpoint ''https'' ''registry.insecure.test'' True ?tls, ?http], None)"
    by (simp add: example_defs)
  note inst = custom_host_errors [OF h1 h2, of "exampleService []" "Failure []"
      "\<lambda>raw. Inl (Failure raw)"]
  from inst have "\<forall>ep \<in> set (fst (lookupV2Endpoints examplePackage (exampleService [])
        ''registry.insecure.test'')).
      URL ep = zeroURL\<lparr>Scheme := Scheme (URL ep), Host := ''registry.insecure.test''\<rparr>"
    by blast
  then have "URL ?http = zeroURL\<lparr>Scheme := Scheme (URL ?http), Host := ''registry.insecure.test''\<rparr>"
    by (simp add: h3)
  moreover have "Scheme (URL ?http) = ''http''"
    by (simp add: hostEndpoint_def)
  ultimately have h4: "URL ?http = zeroURL\<lparr>Scheme := ''http'', Host := ''registry.insecure.test''\<rparr>"
    by (simp only:)
  from inst have h5: "lookupV2Endpoints (examplePackage\<lparr>url_Parse := (\<lambda>raw. Inl (Failure raw))\<rparr>)
       (exampleService []) ''registry.insecure.test''
     = lookupV2Endpoints examplePackage (exampleService []) ''registry.insecure.test''"
    by blast
  from h1 h2 h3 h4 h5 show ?thesis by blast
qed

subsection \<open>The reserved hostnames: mirrors, then the official registry\<close>

text \<open>
  C2. For a hostname equal to \<open>DefaultNamespace\<close> or \<open>IndexHostname\<close>, a successful
  result has one endpoint more than there are configured mirrors and its last endpoint
  has \<open>Official\<close> true. No mirror gets a plaintext fallback: each mirror contributes the
  one endpoint whose URL is the parse of its (normalised) address, flagged \<open>Mirror\<close>,
  and the only endpoint not flagged \<open>Mirror\<close> is the official one.
\<close>

theorem default_host_endpoints:
  assumes "hostname = DefaultNamespace p \<or> hostname = IndexHostname p"
    and "lookupV2Endpoints p s hostname = (eps, None)"
  shows "length eps = length (Mirrors (config s)) + 1 \<and>
         Official (last eps) \<and>
         (\<forall>i < length (Mirrors (config s)).
            Mirror (eps ! i) \<and>
            url_Parse p (normalizeMirror (Mirrors (config s) ! i)) = Inr (URL (eps ! i))) \<and>
         filter (\<lambda>ep. \<not> Mirror ep) eps = [officialEndpoint p]"
proof -
  from assms obtain meps where
    loop: "mirrorLoop p s (Mirrors (config s)) [] = Inr meps" and
    eps: "eps = meps @ [officialEndpoint p]"
    using lookup_default_success by blast
  from loop have len: "length meps = length (Mirrors (config s))"
    by (rule mirrorLoop_length)
  have mirrors: "\<forall>ep \<in> set meps. Mirror ep"
  proof
    fix ep assume "ep \<in> set meps"
    with loop obtain u t where "ep = mirrorEndpoint u t"
      using mirrorLoop_members by blast
    then show "Mirror ep" by (simp add: mirrorEndpoint_def)
  qed
  have "length eps = length (Mirrors (config s)) + 1"
    using eps len by simp
  moreover have "Official (last eps)"
    using eps by (simp add: officialEndpoint_def)
  moreover have "\<forall>i < length (Mirrors (config s)).
      Mirror (eps ! i) \<and>
      url_Parse p (normalizeMirror (Mirrors (config s) ! i)) = Inr (URL (eps ! i))"
  proof (intro allI impI)
    fix i assume i: "i < length (Mirrors (config s))"
    with loop have "mirrorStep p s (Mirrors (config s) ! i) = Inr (meps ! i)"
      by (rule mirrorLoop_nth)
    then obtain u t where
      "url_Parse p (normalizeMirror (Mirrors (config s) ! i)) = Inr u"
      "meps ! i = mirrorEndpoint u t"
      by (auto simp add: mirrorStep_Inr)
    moreover have "eps ! i = meps ! i"
      using eps i len by (simp add: nth_append)
    ultimately show "Mirror (eps ! i) \<and>
        url_Parse p (normalizeMirror (Mirrors (config s) ! i)) = Inr (URL (eps ! i))"
      by (simp add: mirrorEndpoint_def)
  qed
  moreover have "filter (\<lambda>ep. \<not> Mirror ep) eps = [officialEndpoint p]"
    using eps mirrors by (simp add: officialEndpoint_def)
  ultimately show ?thesis by blast
qed

theorem default_host_endpoints_witness:
  "lookupV2Endpoints examplePackage
      (exampleService [''http://plain.local'', ''https://registry.insecure.test''])
      ''index.docker.io''
    = ([mirrorEndpoint (zeroURL\<lparr>Scheme := ''http'', Host := ''plain.local''\<rparr>)
          exampleServerDefault,
        mirrorEndpoint (zeroURL\<lparr>Scheme := ''https'', Host := ''registry.insecure.test''\<rparr>)
          (exampleServerDefault\<lparr>InsecureSkipVerify := True\<rparr>),
        officialEndpoint examplePackage], None) \<and>
   ''index.docker.io'' = IndexHostname examplePackage"
proof -
  have h1: "''index.docker.io'' = DefaultNamespace examplePackage \<or>
            ''index.docker.io'' = IndexHostname examplePackage"
    by (simp add: examplePackage_def)
  have h2: "lookupV2Endpoints examplePackage
      (exampleService [''http://plain.local'', ''https://registry.insecure.test''])
      ''index.docker.io''
    = ([mirrorEndpoint (zeroURL\<lparr>Scheme := ''http'', Host := ''plain.local''\<rparr>)
          exampleServerDefault,
        mirrorEndpoint (zeroURL\<lparr>Scheme := ''https'', Host := ''registry.insecure.test''\<rparr>)
          (exampleServerDefault\<lparr>InsecureSkipVerify := True\<rparr>),
        officialEndpoint examplePackage], None)"
    by (simp add: example_defs)
  have h3: "''index.docker.io'' = IndexHostname examplePackage"
    by (simp add: examplePackage_def)
  from default_host_endpoints [OF h1 h2] h2 h3 show ?thesis by blast
qed

text \<open>
  C4. For a reserved hostname and a successful result, the endpoint at index \<open>i\<close> below
  the number of mirrors is the descriptor built from the \<open>i\<close>-th configured mirror: the
  parse of its normalised address with the TLS configuration built for the parsed host.
  None of these is flagged \<open>Official\<close>; the official registry's endpoint is the single
  one after them.
\<close>

theorem mirror_order:
  assumes "hostname = DefaultNamespace p \<or> hostname = IndexHostname p"
    and "lookupV2Endpoints p s hostname = (eps, None)"
  shows "map (mirrorStep p s) (Mirrors (config s)) = map Inr (butlast eps) \<and>
         eps ! length (Mirrors (config s)) = officialEndpoint p \<and>
         length eps = Suc (length (Mirrors (config s))) \<and>
         (\<forall>i < length (Mirrors (config s)).
            \<not> Official (eps ! i) \<and>
            (\<exists>u t. url_Parse p (normalizeMirror (Mirrors (config s) ! i)) = Inr u \<and>
                   newTLSConfig p (Host u) (isSecureIndex (config s) (Host u)) = Inr t \<and>
                   eps ! i = mirrorEndpoint u t))"
proof -
  from assms obtain meps where
    loop: "mirrorLoop p s (Mirrors (config s)) [] = Inr meps" and
    eps: "eps = meps @ [officialEndpoint p]"
    using lookup_default_success by blast
  from loop have len: "length meps = length (Mirrors (config s))"
    by (rule mirrorLoop_length)
  have "map (mirrorStep p s) (Mirrors (config s)) = map Inr (butlast eps)"
    using loop eps by (simp add: mirrorLoop_Inr_iff)
  moreover have "eps ! length (Mirrors (config s)) = officialEndpoint p"
    using eps len by (simp add: nth_append)
  moreover have "length eps = Suc (length (Mirrors (config s)))"
    using eps len by simp
  moreover have "\<forall>i < length (Mirrors (config s)).
      \<not> Official (eps ! i) \<and>
      (\<exists>u t. url_Parse p (normalizeMirror (Mirrors (config s) ! i)) = Inr u \<and>
             newTLSConfig p (Host u) (isSecureIndex (config s) (Host u)) = Inr t \<and>
             eps ! i = mirrorEndpoint u t)"
  proof (intro allI impI)
    fix i assume i: "i < length (Mirrors (config s))"
    with loop have "mirrorStep p s (Mirrors (config s) ! i) = Inr (meps ! i)"
      by (rule mirrorLoop_nth)
    then obtain u t where ut:
      "url_Parse p (normalizeMirror (Mirrors (config s) ! i)) = Inr u"
      "newTLSConfig p (Host u) (isSecureIndex (config s) (Host u)) = Inr t"
      "meps ! i = mirrorEndpoint u t"
      by (auto simp add: mirrorStep_Inr)
    have same: "eps ! i = meps ! i"
      using eps i len by (simp add: nth_append)
    have "\<not> Official (eps ! i)"
      using same ut(3) by (simp add: mirrorEndpoint_def)
    moreover have "\<exists>u t. url_Parse p (normalizeMirror (Mirrors (config s) ! i)) = Inr u \<and>
             newTLSConfig p (Host u) (isSecureIndex (config s) (Host u)) = Inr t \<and>
             eps ! i = mirrorEndpoint u t"
      using same ut by auto
    ultimately show "\<not> Official (eps ! i) \<and>
      (\<exists>u t. url_Parse p (normalizeMirror (Mirrors (config s) ! i)) = Inr u \<and>
             newTLSConfig p (Host u) (isSecureIndex (config s) (Host u)) = Inr t \<and>
             eps ! i = mirrorEndpoint u t)"
      by blast
  qed
  ultimately show ?thesis by blast
qed

theorem mirror_order_witness:
  "''docker.io'' = DefaultNamespace examplePackage \<and>
   lookupV2Endpoints examplePackage
      (exampleService [''mirror.local'', ''http://plain.local'']) ''docker.io''
    = ([mirrorEndpoint (zeroURL\<lparr>Scheme := ''https'', Host := ''mirror.local''\<rparr>)
          exampleServerDefault,
        mirrorEndpoint (zeroURL\<lparr>Scheme := ''http'', Host := ''plain.local''\<rparr>)
          exampleServerDefault,
        officialEndpoint examplePackage], None) \<and>
   (1::nat) < length (Mirrors (config (exampleService [''mirror.local'', ''http://plain.local''])))"
proof -
  have h0: "''docker.io'' = DefaultNamespace examplePackage"
    by (simp add: examplePackage_def)
  then have h1: "''docker.io'' = DefaultNamespace examplePackage \<or>
            ''docker.io'' = IndexHostname examplePackage" ..
  have h2: "lookupV2Endpoints examplePackage
      (exampleService [''mirror.local'', ''http://plain.local'']) ''docker.io''
    = ([mirrorEndpoint (zeroURL\<lparr>Scheme := ''https'', Host := ''mirror.local''\<rparr>)
          exampleServerDefault,
        mirrorEndpoint (zeroURL\<lparr>Scheme := ''http'', Host := ''plain.local''\<rparr>)
          exampleServerDefault,
        officialEndpoint examplePackage], None)"
    by (simp add: example_defs)
  have h3: "(1::nat) < length (Mirrors (config
      (exampleService [''mirror.local'', ''http://plain.local''])))"
    by (simp add: exampleService_def)
  from mirror_order [OF h1 h2] h0 h2 h3 show ?thesis by blast
qed

text \<open>
  C9. A configured mirror address that starts with \<open>http://\<close> is handed to \<open>url.Parse\<close>
  as it is, not rewritten to https. On success the endpoint at the mirror's position has
  \<open>Mirror\<close> true and carries the parsed URL of that very address; as \<open>url.Parse\<close> gives
  an address starting with \<open>http://\<close> the scheme http, the endpoint's URL has the plaintext
  scheme. The concrete instance after the theorem shows such an endpoint in the result
  for the default namespace.
\<close>

theorem http_mirror_kept:
  assumes "hostname = DefaultNamespace p \<or> hostname = IndexHostname p"
    and "lookupV2Endpoints p s hostname = (eps, None)"
    and "i < length (Mirrors (config s))"
    and "strings_HasPrefix (Mirrors (config s) ! i) ''http://''"
  shows "normalizeMirror (Mirrors (config s) ! i) = Mirrors (config s) ! i \<and>
         url_Parse p (Mirrors (config s) ! i) = Inr (URL (eps ! i)) \<and>
         Mirror (eps ! i) \<and> \<not> Official (eps ! i) \<and>
         ((\<forall>u. url_Parse p (Mirrors (config s) ! i) = Inr u \<longrightarrow> Scheme u = ''http'') \<longrightarrow>
            Scheme (URL (eps ! i)) = ''http'')"
proof -
  have norm: "normalizeMirror (Mirrors (config s) ! i) = Mirrors (config s) ! i"
    using assms(4) by (simp add: normalizeMirror_def)
  from default_mirror_nth [OF assms(1,2,3)] obtain u t where
    "url_Parse p (normalizeMirror (Mirrors (config s) ! i)) = Inr u"
    "eps ! i = mirrorEndpoint u t"
    by blast
  with norm show ?thesis by (simp add: mirrorEndpoint_def)
qed

theorem http_mirror_kept_witness:
  "''docker.io'' = DefaultNamespace examplePackage \<and>
   lookupV2Endpoints examplePackage (exampleService [''http://plain.local'']) ''docker.io''
    = ([mirrorEndpoint (zeroURL\<lparr>Scheme := ''http'', Host := ''plain.local''\<rparr>)
          exampleServerDefault,
        officialEndpoint examplePackage], None) \<and>
   strings_HasPrefix (Mirrors (config (exampleService [''http://plain.local''])) ! 0) ''http://'' \<and>
   url_Parse examplePackage (Mirrors (config (exampleService [''http://plain.local''])) ! 0)
     = Inr (zeroURL\<lparr>Scheme := ''http'', Host := ''plain.local''\<rparr>) \<and>
   Scheme (URL (mirrorEndpoint (zeroURL\<lparr>Scheme := ''http'', Host := ''plain.local''\<rparr>)
          exampleServerDefault)) = ''http''"
proof -
  have h0: "''docker.io'' = DefaultNamespace examplePackage"
    by (simp add: examplePackage_def)
  then have h1: "''docker.io'' = DefaultNamespace examplePackage \<or>
            ''docker.io'' = IndexHostname examplePackage" ..
  have h2: "lookupV2Endpoints examplePackage (exampleService [''http://plain.local'']) ''docker.io''
    = ([mirrorEndpoint (zeroURL\<lparr>Scheme := ''http'', Host := ''plain.local''\<rparr>)
          exampleServerDefault,
        officialEndpoint examplePackage], None)"
    by (simp add: example_defs)
  have h3: "0 < length (Mirrors (config (exampleService [''http://plain.local''])))"
    by (simp add: exampleService_def)
  have h4: "strings_HasPrefix (Mirrors (config (exampleService [''http://plain.local''])) ! 0)
      ''http://''"
    by (simp add: exampleService_def strings_HasPrefix_def)
  have h5: "url_Parse examplePackage
        (Mirrors (config (exampleService [''http://plain.local''])) ! 0)
      = Inr (zeroURL\<lparr>Scheme := ''http'', Host := ''plain.local''\<rparr>)"
    by (simp add: example_defs)
  have h6: "Scheme (URL (mirrorEndpoint (zeroURL\<lparr>Scheme := ''http'', Host := ''plain.local''\<rparr>)
          exampleServerDefault)) = ''http''"
    by (simp add: mirrorEndpoint_def)
  from http_mirror_kept [OF h1 h2 h3 h4] h0 h2 h4 h5 h6 show ?thesis by blast
qed

text \<open>
  C5, as stated, fails: it promises an invalid-parameter error whenever some mirror
  address does not parse, and the TLS builder's error whenever the builder fails for
  some mirror. The loop returns at the first failing mirror. With the mirrors
  \<open>badcerts.local\<close> (the TLS builder fails for it) and \<open>http://[\<close> (it does not parse),
  the resolver returns the TLS builder's error, which is no invalid-parameter error.
\<close>

theorem mirror_failure_counterexample:
  "url_Parse examplePackage (normalizeMirror ''http://['') = Inl (Failure ''missing ] in host'') \<and>
   mirrorStep examplePackage (exampleService [''badcerts.local'', ''http://['']) ''badcerts.local''
     = Inl (Failure ''failed to find any PEM data in certificate input'') \<and>
   lookupV2Endpoints examplePackage (exampleService [''badcerts.local'', ''http://[''])
       ''docker.io''
     = ([], Some (Failure ''failed to find any PEM data in certificate input'')) \<and>
   \<not> isInvalidParameter (Failure ''failed to find any PEM data in certificate input'')"
  by (simp add: example_defs mirrorStep_def)

text \<open>
  C5, amended. For a reserved hostname, let \<open>i\<close> be the first mirror, in configured
  order, whose step fails (every mirror before it parses and gets its TLS
  configuration). If its address fails to parse with \<open>err\<close>, the resolver returns the
  invalid-parameter error wrapping \<open>err\<close> and the empty list; if its address parses and
  the TLS builder fails with \<open>err\<close>, the resolver returns \<open>err\<close> and the empty list. An
  error is never returned together with endpoints.
\<close>

theorem first_mirror_failure:
  assumes "hostname = DefaultNamespace p \<or> hostname = IndexHostname p"
    and "i < length (Mirrors (config s))"
    and "\<forall>j<i. \<exists>ep. mirrorStep p s (Mirrors (config s) ! j) = Inr ep"
  shows "(url_Parse p (normalizeMirror (Mirrors (config s) ! i)) = Inl err \<longrightarrow>
            lookupV2Endpoints p s hostname = ([], Some (invalidParam err))) \<and>
         (\<forall>u. url_Parse p (normalizeMirror (Mirrors (config s) ! i)) = Inr u \<and>
              newTLSConfig p (Host u) (isSecureIndex (config s) (Host u)) = Inl err \<longrightarrow>
            lookupV2Endpoints p s hostname = ([], Some err)) \<and>
         (\<forall>e. snd (lookupV2Endpoints p s hostname) = Some e \<longrightarrow>
            fst (lookupV2Endpoints p s hostname) = [])"
proof -
  from assms(1) have dflt: "isDefaultHost p hostname" by (simp add: isDefaultHost_def)
  have fail: "lookupV2Endpoints p s hostname = ([], Some e)"
    if "mirrorStep p s (Mirrors (config s) ! i) = Inl e" for e
  proof -
    from assms(2,3) that have "mirrorLoop p s (Mirrors (config s)) [] = Inl e"
      by (rule mirrorLoop_first_failure)
    with dflt show ?thesis by (simp add: lookup_default)
  qed
  have "url_Parse p (normalizeMirror (Mirrors (config s) ! i)) = Inl err \<longrightarrow>
            lookupV2Endpoints p s hostname = ([], Some (invalidParam err))"
    by (auto intro!: fail simp add: mirrorStep_def)
  moreover have "\<forall>u. url_Parse p (normalizeMirror (Mirrors (config s) ! i)) = Inr u \<and>
              newTLSConfig p (Host u) (isSecureIndex (config s) (Host u)) = Inl err \<longrightarrow>
            lookupV2Endpoints p s hostname = ([], Some err)"
    by (auto intro!: fail simp add: mirrorStep_def)
  moreover have "\<forall>e. snd (lookupV2Endpoints p s hostname) = Some e \<longrightarrow>
            fst (lookupV2Endpoints p s hostname) = []"
    using dflt
    by (cases "mirrorLoop p s (Mirrors (config s)) []") (simp_all add: lookup_default)
  ultimately show ?thesis by blast
qed

theorem first_mirror_failure_witness:
  "''docker.io'' = DefaultNamespace examplePackage \<and>
   (1::nat) < length (Mirrors (config (exampleService [''mirror.local'', ''http://['', ''badcerts.local'']))) \<and>
   mirrorStep examplePackage (exampleService [''mirror.local'', ''http://['', ''badcerts.local''])
       ''mirror.local''
     = Inr (mirrorEndpoint (zeroURL\<lparr>Scheme := ''https'', Host := ''mirror.local''\<rparr>)
             exampleServerDefault) \<and>
   url_Parse examplePackage (normalizeMirror ''http://['') = Inl (Failure ''missing ] in host'') \<and>
   lookupV2Endpoints examplePackage
       (exampleService [''mirror.local'', ''http://['', ''badcerts.local'']) ''docker.io''
     = ([], Some (invalidParam (Failure ''missing ] in host'')))"
proof -
  let ?s = "exampleService [''mirror.local'', ''http://['', ''badcerts.local'']"
  have h0: "''docker.io'' = DefaultNamespace examplePackage"
    by (simp add: examplePackage_def)
  then have h1: "''docker.io'' = DefaultNamespace examplePackage \<or>
            ''docker.io'' = IndexHostname examplePackage" ..
  have h2: "(1::nat) < length (Mirrors (config ?s))"
    by (simp add: exampleService_def)
  have step: "mirrorStep examplePackage ?s ''mirror.local''
     = Inr (mirrorEndpoint (zeroURL\<lparr>Scheme := ''https'', Host := ''mirror.local''\<rparr>)
             exampleServerDefault)"
    by (simp add: mirrorStep_def example_defs)
  have h3: "\<forall>j<1. \<exists>ep. mirrorStep examplePackage ?s (Mirrors (config ?s) ! j) = Inr ep"
  proof (intro allI impI)
    fix j :: nat assume "j < 1"
    then have "Mirrors (config ?s) ! j = ''mirror.local''"
      by (simp add: exampleService_def)
    with step show "\<exists>ep. mirrorStep examplePackage ?s (Mirrors (config ?s) ! j) = Inr ep"
      by simp
  qed
  have h4: "url_Parse examplePackage (normalizeMirror ''http://['')
      = Inl (Failure ''missing ] in host'')"
    by (simp add: example_defs)
  have nth1: "Mirrors (config ?s) ! 1 = ''http://[''"
    by (simp add: exampleService_def)
  from first_mirror_failure [OF h1 h2 h3, of "Failure ''missing ] in host''"] h4 nth1
  have "lookupV2Endpoints examplePackage ?s ''docker.io''
     = ([], Some (invalidParam (Failure ''missing ] in host'')))"
    by simp
  with h0 h2 step h4 show ?thesis by blast
qed

text \<open>
  C3, as stated, fails: it says the address is prefixed exactly when it carries no
  explicit scheme. The test of line 13 knows the two prefixes \<open>http://\<close> and
  \<open>https://\<close>, in lower case: an address that carries another scheme, or one of these
  two in another spelling, is prefixed as well.
\<close>

theorem explicit_scheme_prefixed_counterexample:
  "spec_carriesExplicitScheme ''ftp://mirror.local'' \<and>
   normalizeMirror ''ftp://mirror.local'' = ''https://ftp://mirror.local'' \<and>
   spec_carriesExplicitScheme ''HTTP://mirror.local'' \<and>
   normalizeMirror ''HTTP://mirror.local'' = ''https://HTTP://mirror.local''"
  by (simp add: spec_carriesExplicitScheme_def schemeChar_def schemeLetter_def
      strings_HasPrefix_def normalizeMirror_def)

text \<open>
  C3, amended. The address handed to \<open>url.Parse\<close> is the configured address prefixed
  with \<open>https://\<close> exactly when the configured address starts with neither \<open>http://\<close>
  nor \<open>https://\<close>, and is the configured address itself otherwise; every address that
  carries no explicit scheme is therefore prefixed. In particular, replacing a mirror
  address \<open>m\<close> that starts with neither prefix (such as one without a scheme) by
  \<open>https://\<close> followed by \<open>m\<close> leaves the result of the resolution unchanged, for every
  hostname.
\<close>

theorem bare_mirror_as_https:
  assumes "\<not> strings_HasPrefix m ''http://''" and "\<not> strings_HasPrefix m ''https://''"
    and "Mirrors (config s) = xs @ m # ys"
  shows "normalizeMirror m = ''https://'' @ m \<and>
         lookupV2Endpoints p
             (s\<lparr>config := (config s)\<lparr>Mirrors := xs @ (''https://'' @ m) # ys\<rparr>\<rparr>) hostname
           = lookupV2Endpoints p s hostname \<and>
         (normalizeMirror a = ''https://'' @ a) =
           (\<not> strings_HasPrefix a ''http://'' \<and> \<not> strings_HasPrefix a ''https://'') \<and>
         (normalizeMirror a = a) =
           (strings_HasPrefix a ''http://'' \<or> strings_HasPrefix a ''https://'') \<and>
         (\<not> spec_carriesExplicitScheme a \<longrightarrow> normalizeMirror a = ''https://'' @ a)"
proof -
  let ?s' = "s\<lparr>config := (config s)\<lparr>Mirrors := xs @ (''https://'' @ m) # ys\<rparr>\<rparr>"
  have norm: "normalizeMirror m = ''https://'' @ m"
    using assms(1,2) by (simp add: normalizeMirror_def)
  have "map normalizeMirror (xs @ m # ys) = map normalizeMirror (xs @ (''https://'' @ m) # ys)"
    by (simp only: map_append list.map normalizeMirror_https_append norm)
  moreover have sec: "isSecureIndex (config ?s') = isSecureIndex (config s)" by simp
  ultimately have "mirrorLoop p ?s' (xs @ (''https://'' @ m) # ys) []
      = mirrorLoop p s (xs @ m # ys) []"
    by (rule mirrorLoop_cong)
  moreover have "Mirrors (config ?s') = xs @ (''https://'' @ m) # ys" by simp
  ultimately have loop: "mirrorLoop p ?s' (Mirrors (config ?s')) []
      = mirrorLoop p s (Mirrors (config s)) []"
    by (simp only: assms(3))
  have ana: "allowNondistributableArtifacts (config ?s') = allowNondistributableArtifacts (config s)"
    by simp
  have "lookupV2Endpoints p ?s' hostname = lookupV2Endpoints p s hostname"
    by (simp only: lookupV2Endpoints_def sec ana loop)
  moreover have "(normalizeMirror a = a) =
           (strings_HasPrefix a ''http://'' \<or> strings_HasPrefix a ''https://'')"
    by (simp add: normalizeMirror_def)
  ultimately show ?thesis
    using norm normalizeMirror_prefixes [of a] schemeless_is_prefixed [of a] by blast
qed

theorem bare_mirror_as_https_witness:
  "\<not> spec_carriesExplicitScheme ''myregistry.example.com'' \<and>
   normalizeMirror ''myregistry.example.com'' = ''https://myregistry.example.com'' \<and>
   \<not> strings_HasPrefix ''myregistry.example.com'' ''http://'' \<and>
   \<not> strings_HasPrefix ''myregistry.example.com'' ''https://'' \<and>
   lookupV2Endpoints examplePackage
       (exampleService [''http://plain.local'', ''https://myregistry.example.com''])
       ''docker.io''
     = lookupV2Endpoints examplePackage
       (exampleService [''http://plain.local'', ''myregistry.example.com'']) ''docker.io'' \<and>
   lookupV2Endpoints examplePackage
       (exampleService [''http://plain.local'', ''myregistry.example.com'']) ''docker.io''
    = ([mirrorEndpoint (zeroURL\<lparr>Scheme := ''http'', Host := ''plain.local''\<rparr>)
          exampleServerDefault,
        mirrorEndpoint (zeroURL\<lparr>Scheme := ''https'', Host := ''myregistry.example.com''\<rparr>)
          exampleServerDefault,
        officialEndpoint examplePackage], None)"
proof -
  let ?s = "exampleService [''http://plain.local'', ''myregistry.example.com'']"
  have h1: "\<not> strings_HasPrefix ''myregistry.example.com'' ''http://''"
    by (simp add: strings_HasPrefix_def)
  have h2: "\<not> strings_HasPrefix ''myregistry.example.com'' ''https://''"
    by (simp add: strings_HasPrefix_def)
  have h3: "Mirrors (config ?s) = [''http://plain.local''] @ ''myregistry.example.com'' # []"
    by (simp add: exampleService_def)
  have upd: "?s\<lparr>config := (config ?s)\<lparr>Mirrors :=
        [''http://plain.local''] @ (''https://'' @ ''myregistry.example.com'') # []\<rparr>\<rparr>
      = exampleService [''http://plain.local'', ''https://myregistry.example.com'']"
    by (simp add: exampleService_def)
  have h4: "lookupV2Endpoints examplePackage ?s ''docker.io''
    = ([mirrorEndpoint (zeroURL\<lparr>Scheme := ''http'', Host := ''plain.local''\<rparr>)
          exampleServerDefault,
        mirrorEndpoint (zeroURL\<lparr>Scheme := ''https'', Host := ''myregistry.example.com''\<rparr>)
          exampleServerDefault,
        officialEndpoint examplePackage], None)"
    by (simp add: example_defs)
  have h5: "\<not> spec_carriesExplicitScheme ''myregistry.example.com''"
    by (simp add: spec_carriesExplicitScheme_def schemeChar_def schemeLetter_def
        strings_HasPrefix_def)
  note inst = bare_mirror_as_https [OF h1 h2 h3, of examplePackage "''docker.io''"
      "''myregistry.example.com''"]
  from inst h5 have "normalizeMirror ''myregistry.example.com''
      = ''https://'' @ ''myregistry.example.com''"
    by blast
  then have h6: "normalizeMirror ''myregistry.example.com'' = ''https://myregistry.example.com''"
    by simp
  from inst
  have "lookupV2Endpoints examplePackage
       (exampleService [''http://plain.local'', ''https://myregistry.example.com''])
       ''docker.io''
     = lookupV2Endpoints examplePackage ?s ''docker.io''"
    by (simp only: upd)
  with h1 h2 h4 h5 h6 show ?thesis by blast
qed

end
